theory Spec2Isabelle
  imports Complex_Main "HOL-Library.Sublist"
begin

section \<open>Strings\<close>

text \<open>
  JavaScript strings are modelled as \<open>string\<close> (lists of 8-bit characters), so the model
  covers ASCII text. \<open>toLowerCase\<close> maps the letters A..Z to a..z and leaves every other
  character alone; \<open>str_includes\<close> is \<open>String.prototype.includes\<close> (substring test);
  \<open>split_space\<close> is \<open>s.split(' ')\<close> and \<open>join_space\<close> is \<open>a.join(' ')\<close>.
\<close>

definition lower_char :: "char \<Rightarrow> char" where
  "lower_char c =
     (case map_of (zip ''ABCDEFGHIJKLMNOPQRSTUVWXYZ'' ''abcdefghijklmnopqrstuvwxyz'') c of
        None \<Rightarrow> c
      | Some d \<Rightarrow> d)"

definition toLowerCase :: "string \<Rightarrow> string" where
  "toLowerCase s = map lower_char s"

fun str_includes :: "string \<Rightarrow> string \<Rightarrow> bool" where
  "str_includes [] w = (w = [])"
| "str_includes (c # cs) w = (prefix w (c # cs) \<or> str_includes cs w)"

fun split_space :: "string \<Rightarrow> string list" where
  "split_space [] = [ [] ]"
| "split_space (c # cs) =
     (if c = CHR '' '' then [] # split_space cs
      else (case split_space cs of [] \<Rightarrow> [ [c] ] | w # ws \<Rightarrow> (c # w) # ws))"

fun join_space :: "string list \<Rightarrow> string" where
  "join_space [] = []"
| "join_space [t] = t"
| "join_space (t # ts) = t @ '' '' @ join_space ts"

section \<open>Suggestion generators\<close>

text \<open>\<open>generateSearchSuggestions\<close> of the vector-index service.\<close>

definition generateSearchSuggestions :: "string \<Rightarrow> string list" where
  "generateSearchSuggestions query =
     (let lowercaseQuery = toLowerCase query in
      if str_includes lowercaseQuery ''romantic'' \<or> str_includes lowercaseQuery ''sunset'' then
        [''romantic dinner with view'', ''sunset beach spots'', ''couples activities Dubai'']
      else if str_includes lowercaseQuery ''family'' \<or> str_includes lowercaseQuery ''kids'' then
        [''family-friendly attractions'', ''water parks Dubai'', ''kid-friendly restaurants'']
      else if str_includes lowercaseQuery ''luxury'' \<or> str_includes lowercaseQuery ''expensive'' then
        [''luxury shopping malls'', ''fine dining Dubai'', ''5-star experiences'']
      else if str_includes lowercaseQuery ''cheap'' \<or> str_includes lowercaseQuery ''budget'' then
        [''budget-friendly activities'', ''affordable restaurants'', ''free attractions Dubai'']
      else
        [''traditional souks'', ''modern attractions'', ''beach activities''])"

text \<open>\<open>generateSuggestions\<close> of the search route (used by the in-memory search).\<close>

definition generateSuggestions :: "string \<Rightarrow> string list" where
  "generateSuggestions query =
     (let lowercaseQuery = toLowerCase query in
      if str_includes lowercaseQuery ''romantic'' then
        [''romantic dinner spots'', ''sunset viewing points'', ''couples activities'']
      else if str_includes lowercaseQuery ''family'' then
        [''family restaurants'', ''kid-friendly attractions'', ''water parks'']
      else if str_includes lowercaseQuery ''luxury'' then
        [''luxury hotels'', ''fine dining'', ''high-end shopping'']
      else if str_includes lowercaseQuery ''traditional'' then
        [''traditional souks'', ''cultural museums'', ''heritage sites'']
      else
        [''top attractions'', ''best restaurants'', ''hidden gems''])"

section \<open>Data model\<close>

text \<open>
  Stored and requested numbers (ratings, coordinates, scores, counts) are finite and are
  modelled as reals. A computed number is a \<open>number\<close>: a finite value, NaN or an
  infinity (the two zeros are one value). Optional fields
  (\<open>field?: T\<close>) are \<open>option\<close> values, \<open>None\<close> standing for \<open>undefined\<close>.
  Record fields of \<open>Location\<close> carry the prefix \<open>loc_\<close>, those of \<open>SearchFilters\<close> the
  prefix \<open>f_\<close>, those of \<open>SearchRequest\<close> the prefix \<open>req_\<close>; \<open>SearchResult\<close> and
  \<open>SearchResponse\<close> keep the source's field names (\<open>id\<close> is \<open>result_id\<close>).
  Fields of \<open>Location\<close> that no search function reads (images, phone, website,
  safetyScore, accessibility, amenities, popularTimes) are left out.
\<close>

datatype number = Finite real | NaN | PosInfinity | NegInfinity

record OpeningHours =
  monday :: "string option"
  tuesday :: "string option"
  wednesday :: "string option"
  thursday :: "string option"
  friday :: "string option"
  saturday :: "string option"
  sunday :: "string option"

record Location =
  loc_id :: string
  loc_name :: string
  loc_category :: string
  loc_description :: string
  loc_tags :: "string list"
  loc_latitude :: real
  loc_longitude :: real
  loc_rating :: real
  loc_reviewCount :: real
  loc_priceRange :: string
  loc_imageUrl :: "string option"
  loc_address :: "string option"
  loc_openingHours :: "OpeningHours option"
  loc_verified :: bool
  loc_halalCertified :: "bool option"
  loc_familyFriendly :: "bool option"

record SearchFilters =
  f_category :: "string option"
  f_priceRange :: "string option"
  f_rating :: "real option"
  f_halalCertified :: "bool option"
  f_familyFriendly :: "bool option"

record UserLocation =
  lat :: real
  lng :: real

record SearchRequest =
  req_query :: string
  req_filters :: "SearchFilters option"
  req_limit :: "int option"
  req_userLocation :: "UserLocation option"

record SearchResult =
  result_id :: string
  name :: string
  description :: string
  category :: string
  tags :: "string list"
  rating :: real
  reviewCount :: real
  priceRange :: string
  similarityScore :: real
  distance :: "number option"
  imageUrl :: "string option"
  latitude :: "real option"
  longitude :: "real option"
  verified :: bool
  halalCertified :: "bool option"
  familyFriendly :: "bool option"
  openingHours :: "string option"
  address :: "string option"

record SearchResponse =
  results :: "SearchResult list"
  total :: nat
  queryTimeMs :: int
  suggestions :: "string list"

text \<open>JavaScript truthiness of an optional string and of an optional number.\<close>

fun truthy_str :: "string option \<Rightarrow> bool" where
  "truthy_str None = False"
| "truthy_str (Some s) = (s \<noteq> [])"

fun truthy_num :: "real option \<Rightarrow> bool" where
  "truthy_num None = False"
| "truthy_num (Some x) = (x \<noteq> 0)"

section \<open>In-memory search (search route)\<close>

text \<open>
  The callback of \<open>locations.map\<close> in \<open>performInMemorySearch\<close>: the keyword score of one
  location and its result record.
\<close>

definition searchText :: "Location \<Rightarrow> string" where
  "searchText location =
     toLowerCase (loc_name location @ '' '' @ loc_description location @ '' '' @
       join_space (loc_tags location) @ '' '' @ loc_category location)"

definition queryWords :: "string \<Rightarrow> string list" where
  "queryWords query = split_space (toLowerCase query)"

definition matchCount :: "string \<Rightarrow> Location \<Rightarrow> nat" where
  "matchCount query location =
     length (filter (\<lambda>word. str_includes (searchText location) word) (queryWords query))"

definition scoreLocation :: "string \<Rightarrow> Location \<Rightarrow> SearchResult" where
  "scoreLocation query location =
     \<lparr> result_id = loc_id location,
       name = loc_name location,
       description = loc_description location,
       category = loc_category location,
       tags = loc_tags location,
       rating = loc_rating location,
       reviewCount = loc_reviewCount location,
       priceRange = loc_priceRange location,
       similarityScore = real (matchCount query location) / real (length (queryWords query)),
       distance = None,
       imageUrl = loc_imageUrl location,
       latitude = Some (loc_latitude location),
       longitude = Some (loc_longitude location),
       verified = loc_verified location,
       halalCertified = loc_halalCertified location,
       familyFriendly = loc_familyFriendly location,
       openingHours =
         (case loc_openingHours location of
            None \<Rightarrow> None
          | Some h \<Rightarrow> (if truthy_str (monday h) then monday h else None)),
       address = loc_address location \<rparr>"

text \<open>The callback of \<open>.filter\<close>: \<open>filters\<close> is the optional second argument.\<close>

definition keepResult :: "SearchFilters option \<Rightarrow> SearchResult \<Rightarrow> bool" where
  "keepResult filters result =
     (if similarityScore result = 0 then False
      else case filters of
        None \<Rightarrow> True
      | Some fs \<Rightarrow>
          (if truthy_str (f_category fs) \<and> Some (category result) \<noteq> f_category fs then False
           else if f_halalCertified fs \<noteq> None \<and> halalCertified result \<noteq> f_halalCertified fs
             then False
           else if f_familyFriendly fs \<noteq> None \<and> familyFriendly result \<noteq> f_familyFriendly fs
             then False
           else if truthy_num (f_rating fs) \<and> rating result < the (f_rating fs) then False
           else True))"

text \<open>
  \<open>.sort((a, b) => b.similarityScore - a.similarityScore)\<close>: a stable sort, descending by
  score (\<open>sort_key\<close> is a stable insertion sort, ascending by its key).
\<close>

definition sortByScore :: "SearchResult list \<Rightarrow> SearchResult list" where
  "sortByScore rs = sort_key (\<lambda>r. - similarityScore r) rs"

text \<open>
  \<open>performInMemorySearch\<close>. The table \<open>getAllLocations()\<close> and the two readings of
  \<open>Date.now()\<close> are parameters.
\<close>

definition performInMemorySearch ::
  "Location list \<Rightarrow> int \<Rightarrow> int \<Rightarrow> string \<Rightarrow> SearchFilters option \<Rightarrow> SearchResponse" where
  "performInMemorySearch locations startTime endTime query filters =
     (let rs = take 10 (sortByScore (filter (keepResult filters)
                 (map (scoreLocation query) locations)))
      in \<lparr> results = rs,
           total = length rs,
           queryTimeMs = endTime - startTime,
           suggestions = generateSuggestions query \<rparr>)"

section \<open>Vector-index search (qdrant service)\<close>

text \<open>A thrown value: an \<open>Error\<close> object with its message, or any other value.\<close>

datatype error = Error string | NonError

text \<open>
  The filter handed to the index: \<open>{ must: [...] }\<close>, each entry either
  \<open>{ key, match: { value } }\<close> or \<open>{ key, range: { gte } }\<close>.
\<close>

datatype match_value = MatchString string | MatchBool bool

datatype condition = Match string match_value | RangeGte string real

text \<open>
  A point of the index. The payload is read as \<open>any\<close>; the fields that the mapping guards
  or defaults (\<open>||\<close>, \<open>&&\<close>) and the optional fields of the result are options.
\<close>

record Payload =
  p_name :: string
  p_description :: string
  p_category :: string
  p_tags :: "string list option"
  p_rating :: real
  p_reviewCount :: "real option"
  p_priceRange :: string
  p_imageUrl :: "string option"
  p_latitude :: "real option"
  p_longitude :: "real option"
  p_verified :: "bool option"
  p_halalCertified :: "bool option"
  p_familyFriendly :: "bool option"
  p_openingHours :: "string option"
  p_address :: "string option"

datatype point_id = NumId nat | StrId string

record Hit =
  hit_id :: point_id
  score :: real
  payload :: Payload

record SearchParams =
  sp_vector :: "real list"
  sp_limit :: int
  sp_filter :: "condition list option"
  sp_with_payload :: bool

text \<open>\<open>hit.id.toString()\<close>: a number prints in decimal, a string is itself.\<close>

definition digit_char :: "nat \<Rightarrow> char" where
  "digit_char d = ''0123456789'' ! d"

function string_of_nat :: "nat \<Rightarrow> string" where
  "string_of_nat n =
     (if n < 10 then [digit_char n] else string_of_nat (n div 10) @ [digit_char (n mod 10)])"
  by pat_completeness auto
termination
  by (relation "measure (\<lambda>n. n)") auto

fun id_toString :: "point_id \<Rightarrow> string" where
  "id_toString (NumId n) = string_of_nat n"
| "id_toString (StrId s) = s"

subsection \<open>Distance\<close>

text \<open>
  \<open>calculateDistance\<close> computes in the engine's double arithmetic: every operation rounds,
  and \<open>Math.sin\<close>, \<open>Math.cos\<close> and \<open>Math.atan2\<close> are approximations that the engine
  chooses. The arithmetic is therefore a parameter of the model, one function for each
  operator and each \<open>Math\<close> member that the source uses; nothing is assumed of it.
\<close>

record Arith =
  num_add :: "number \<Rightarrow> number \<Rightarrow> number"
  num_sub :: "number \<Rightarrow> number \<Rightarrow> number"
  num_mul :: "number \<Rightarrow> number \<Rightarrow> number"
  num_div :: "number \<Rightarrow> number \<Rightarrow> number"
  Math_sin :: "number \<Rightarrow> number"
  Math_cos :: "number \<Rightarrow> number"
  Math_sqrt :: "number \<Rightarrow> number"
  Math_atan2 :: "number \<Rightarrow> number \<Rightarrow> number"
  Math_round :: "number \<Rightarrow> number"
  Math_PI :: number

definition toRad :: "Arith \<Rightarrow> number \<Rightarrow> number" where
  "toRad ar degrees = num_div ar (num_mul ar degrees (Math_PI ar)) (Finite 180)"

definition calculateDistance ::
  "Arith \<Rightarrow> number \<Rightarrow> number \<Rightarrow> number \<Rightarrow> number \<Rightarrow> number" where
  "calculateDistance ar lat1 lon1 lat2 lon2 =
     (let R = Finite 6371;
          dLat = toRad ar (num_sub ar lat2 lat1);
          dLon = toRad ar (num_sub ar lon2 lon1);
          a = num_add ar
                (num_mul ar (Math_sin ar (num_div ar dLat (Finite 2)))
                            (Math_sin ar (num_div ar dLat (Finite 2))))
                (num_mul ar
                   (num_mul ar
                      (num_mul ar (Math_cos ar (toRad ar lat1)) (Math_cos ar (toRad ar lat2)))
                      (Math_sin ar (num_div ar dLon (Finite 2))))
                   (Math_sin ar (num_div ar dLon (Finite 2))));
          c = num_mul ar (Finite 2)
                (Math_atan2 ar (Math_sqrt ar a) (Math_sqrt ar (num_sub ar (Finite 1) a)));
          distance = num_mul ar R c
      in num_div ar (Math_round ar (num_mul ar distance (Finite 10))) (Finite 10))"

subsection \<open>Filter builder and result mapper\<close>

text \<open>The block of \<open>searchLocations\<close> that fills \<open>filter.must\<close>.\<close>

definition buildFilter :: "SearchFilters option \<Rightarrow> condition list" where
  "buildFilter filters =
     (case filters of
        None \<Rightarrow> []
      | Some fs \<Rightarrow>
          (if truthy_str (f_category fs)
             then [Match ''category'' (MatchString (the (f_category fs)))] else []) @
          (case f_halalCertified fs of
             None \<Rightarrow> [] | Some b \<Rightarrow> [Match ''halalCertified'' (MatchBool b)]) @
          (case f_familyFriendly fs of
             None \<Rightarrow> [] | Some b \<Rightarrow> [Match ''familyFriendly'' (MatchBool b)]) @
          (if truthy_num (f_rating fs)
             then [RangeGte ''rating'' (the (f_rating fs))] else []))"

text \<open>\<open>request.limit || 10\<close>.\<close>

definition effectiveLimit :: "int option \<Rightarrow> int" where
  "effectiveLimit l = (case l of None \<Rightarrow> 10 | Some n \<Rightarrow> (if n = 0 then 10 else n))"

definition searchParams :: "SearchRequest \<Rightarrow> real list \<Rightarrow> SearchParams" where
  "searchParams request embedding =
     (let must = buildFilter (req_filters request)
      in \<lparr> sp_vector = embedding,
           sp_limit = effectiveLimit (req_limit request),
           sp_filter = (if length must > 0 then Some must else None),
           sp_with_payload = True \<rparr>)"

text \<open>The callback of \<open>searchResults.map\<close>.\<close>

definition hitDistance :: "Arith \<Rightarrow> SearchRequest \<Rightarrow> Payload \<Rightarrow> number option" where
  "hitDistance ar request p =
     (case req_userLocation request of
        None \<Rightarrow> None
      | Some u \<Rightarrow>
          (if truthy_num (p_latitude p) \<and> truthy_num (p_longitude p)
           then Some (calculateDistance ar (Finite (lat u)) (Finite (lng u))
                        (Finite (the (p_latitude p))) (Finite (the (p_longitude p))))
           else None))"

definition mapHit :: "Arith \<Rightarrow> SearchRequest \<Rightarrow> Hit \<Rightarrow> SearchResult" where
  "mapHit ar request hit =
     (let p = payload hit
      in \<lparr> result_id = id_toString (hit_id hit),
           name = p_name p,
           description = p_description p,
           category = p_category p,
           tags = (case p_tags p of None \<Rightarrow> [] | Some ts \<Rightarrow> ts),
           rating = p_rating p,
           reviewCount = (if truthy_num (p_reviewCount p) then the (p_reviewCount p) else 0),
           priceRange = p_priceRange p,
           similarityScore = score hit,
           distance = hitDistance ar request p,
           imageUrl = p_imageUrl p,
           latitude = p_latitude p,
           longitude = p_longitude p,
           verified = (case p_verified p of None \<Rightarrow> False | Some b \<Rightarrow> b),
           halalCertified = p_halalCertified p,
           familyFriendly = p_familyFriendly p,
           openingHours = p_openingHours p,
           address = p_address p \<rparr>)"

subsection \<open>Orchestrator\<close>

text \<open>
  The two external services are parameters: each call either throws or returns. So is the
  engine's arithmetic. The model returns, next to the outcome, the log of the external calls
  it made.
\<close>

record Services =
  generateEmbedding :: "string \<Rightarrow> error + real list"
  qdrantSearch :: "SearchParams \<Rightarrow> error + Hit list"
  arith :: Arith

datatype external_call = EmbeddingCall string | IndexSearchCall SearchParams

definition searchLocations ::
  "Services \<Rightarrow> int \<Rightarrow> int \<Rightarrow> SearchRequest \<Rightarrow> external_call list \<times> (error + SearchResponse)" where
  "searchLocations services startTime endTime request =
     (case generateEmbedding services (req_query request) of
        Inl e \<Rightarrow> ([EmbeddingCall (req_query request)], Inl e)
      | Inr embedding \<Rightarrow>
          (let params = searchParams request embedding;
               calls = [EmbeddingCall (req_query request), IndexSearchCall params]
           in case qdrantSearch services params of
                Inl e \<Rightarrow> (calls, Inl e)
              | Inr searchResults \<Rightarrow>
                  (let rs = map (mapHit (arith services) request) searchResults
                   in (calls,
                       Inr \<lparr> results = rs,
                             total = length rs,
                             queryTimeMs = endTime - startTime,
                             suggestions = generateSearchSuggestions (req_query request) \<rparr>))))"

section \<open>Search route (POST handler)\<close>

text \<open>
  The request body is parsed JSON: \<open>query\<close> may hold any JSON value (the handler tests its
  type), \<open>filters\<close> and \<open>limit\<close> are read at their declared types. A body that is
  the JSON value null is \<open>None\<close>: reading \<open>body.query\<close> of it throws a TypeError. Any
  other body that is no object (a number, a string, a boolean, an array) has no
  \<open>query\<close>, as a \<open>SearchBody\<close> whose \<open>body_query\<close> is \<open>JUndefined\<close>.
\<close>

datatype json_value =
  JUndefined | JNull | JBool bool | JNumber real | JString string | JArray | JObject

fun js_truthy :: "json_value \<Rightarrow> bool" where
  "js_truthy JUndefined = False"
| "js_truthy JNull = False"
| "js_truthy (JBool b) = b"
| "js_truthy (JNumber x) = (x \<noteq> 0)"
| "js_truthy (JString s) = (s \<noteq> [])"
| "js_truthy JArray = True"
| "js_truthy JObject = True"

fun is_string :: "json_value \<Rightarrow> bool" where
  "is_string (JString s) = True"
| "is_string v = False"

record SearchBody =
  body_query :: json_value
  body_filters :: "SearchFilters option"
  body_limit :: "int option"

record RateLimit =
  allowed :: bool
  resetTime :: int

text \<open>
  What the handler reads from outside: the authentication result (a user id, or null), the
  rate limiter, the parsed body, the location table, the clock, the locale's time format
  and the message of the engine's TypeError. \<open>auth\<close> and \<open>requestJson\<close> may throw.
\<close>

record Route =
  auth :: "error + string option"
  rateLimitCheck :: "string \<Rightarrow> RateLimit"
  requestJson :: "error + SearchBody option"
  typeErrorMessage :: string
  getAllLocations :: "Location list"
  startTime :: int
  endTime :: int
  toLocaleTimeString :: "int \<Rightarrow> string"

text \<open>
  The JSON response: its HTTP status and either the error envelope (code, message) or the
  data. Response headers and timestamps are left out. \<open>searches\<close> logs every call of
  \<open>performInMemorySearch\<close> (query, filters).
\<close>

datatype api_body = ApiError string string | ApiData SearchResponse

record HttpResponse =
  status :: nat
  body :: api_body
  searches :: "(string \<times> SearchFilters option) list"

definition internalError :: "error \<Rightarrow> HttpResponse" where
  "internalError e =
     \<lparr> status = 500,
       body = ApiError ''INTERNAL_ERROR''
         (case e of Error m \<Rightarrow> m | NonError \<Rightarrow> ''Failed to process search request''),
       searches = [] \<rparr>"

definition POST :: "Route \<Rightarrow> HttpResponse" where
  "POST r =
     (case auth r of
        Inl e \<Rightarrow> internalError e
      | Inr userId \<Rightarrow>
          (if \<not> truthy_str userId then
             \<lparr> status = 401,
               body = ApiError ''UNAUTHORIZED''
                 ''You must be signed in to use the search feature'',
               searches = [] \<rparr>
           else
             (let rateLimit = rateLimitCheck r (the userId) in
              if \<not> allowed rateLimit then
                \<lparr> status = 429,
                  body = ApiError ''RATE_LIMIT_EXCEEDED''
                    (''Rate limit exceeded. You can make 30 searches per hour. Try again at '' @
                     toLocaleTimeString r (resetTime rateLimit) @ ''.''),
                  searches = [] \<rparr>
              else
                (case requestJson r of
                   Inl e \<Rightarrow> internalError e
                 | Inr None \<Rightarrow> internalError (Error (typeErrorMessage r))
                 | Inr (Some b) \<Rightarrow>
                     (if \<not> js_truthy (body_query b) \<or> \<not> is_string (body_query b) then
                        \<lparr> status = 400,
                          body = ApiError ''INVALID_REQUEST''
                            ''Query is required and must be a string'',
                          searches = [] \<rparr>
                      else
                        (case body_query b of
                           JString q \<Rightarrow>
                             \<lparr> status = 200,
                               body = ApiData (performInMemorySearch (getAllLocations r)
                                        (startTime r) (endTime r) q (body_filters b)),
                               searches = [(q, body_filters b)] \<rparr>
                         | _ \<Rightarrow> internalError NonError))))))"

section \<open>The index's side of the interface\<close>

text \<open>
  Modelled from the spec: the Vector Index is an external service, so what it does with a
  filter is not code of the repository. The spec's interface gives an equality constraint
  for \<open>match\<close> and an inclusive lower bound for \<open>range.gte\<close>, both on a named attribute of
  the stored payload, and a result of at most \<open>limit\<close> hits.
\<close>

definition payload_bool :: "Payload \<Rightarrow> string \<Rightarrow> bool option" where
  "payload_bool p k =
     (if k = ''halalCertified'' then p_halalCertified p
      else if k = ''familyFriendly'' then p_familyFriendly p
      else if k = ''verified'' then p_verified p
      else None)"

definition payload_string :: "Payload \<Rightarrow> string \<Rightarrow> string option" where
  "payload_string p k =
     (if k = ''category'' then Some (p_category p)
      else if k = ''name'' then Some (p_name p)
      else if k = ''description'' then Some (p_description p)
      else if k = ''priceRange'' then Some (p_priceRange p)
      else None)"

definition payload_number :: "Payload \<Rightarrow> string \<Rightarrow> real option" where
  "payload_number p k =
     (if k = ''rating'' then Some (p_rating p)
      else if k = ''reviewCount'' then p_reviewCount p
      else if k = ''latitude'' then p_latitude p
      else if k = ''longitude'' then p_longitude p
      else None)"

fun cond_holds :: "condition \<Rightarrow> Payload \<Rightarrow> bool" where
  "cond_holds (Match k (MatchBool b)) p = (payload_bool p k = Some b)"
| "cond_holds (Match k (MatchString s)) p = (payload_string p k = Some s)"
| "cond_holds (RangeGte k x) p = (case payload_number p k of None \<Rightarrow> False | Some y \<Rightarrow> x \<le> y)"

definition mustConditions :: "SearchParams \<Rightarrow> condition list" where
  "mustConditions params = (case sp_filter params of None \<Rightarrow> [] | Some must \<Rightarrow> must)"

definition honoursFilter :: "SearchParams \<Rightarrow> Hit list \<Rightarrow> bool" where
  "honoursFilter params hits =
     list_all (\<lambda>h. list_all (\<lambda>c. cond_holds c (payload h)) (mustConditions params)) hits"

fun cond_key :: "condition \<Rightarrow> string" where
  "cond_key (Match k v) = k"
| "cond_key (RangeGte k x) = k"

section \<open>Suggestion rules, as the specification words them\<close>

text \<open>
  The specification describes a suggestion generator as an ordered list of rules (keywords,
  suggestion set) evaluated in priority order, the first rule with a keyword occurring in the
  lower-cased query winning, and a default set when no rule matches.
\<close>

fun firstMatch :: "string \<Rightarrow> (string list \<times> string list) list \<Rightarrow> string list \<Rightarrow> string list" where
  "firstMatch q [] dflt = dflt"
| "firstMatch q ((keywords, suggestionSet) # rules) dflt =
     (if \<exists>k \<in> set keywords. str_includes q k then suggestionSet
      else firstMatch q rules dflt)"

definition serviceRules :: "(string list \<times> string list) list" where
  "serviceRules =
     [([''romantic'', ''sunset''],
       [''romantic dinner with view'', ''sunset beach spots'', ''couples activities Dubai'']),
      ([''family'', ''kids''],
       [''family-friendly attractions'', ''water parks Dubai'', ''kid-friendly restaurants'']),
      ([''luxury'', ''expensive''],
       [''luxury shopping malls'', ''fine dining Dubai'', ''5-star experiences'']),
      ([''cheap'', ''budget''],
       [''budget-friendly activities'', ''affordable restaurants'', ''free attractions Dubai''])]"

definition serviceDefault :: "string list" where
  "serviceDefault = [''traditional souks'', ''modern attractions'', ''beach activities'']"

definition routeRules :: "(string list \<times> string list) list" where
  "routeRules =
     [([''romantic''], [''romantic dinner spots'', ''sunset viewing points'', ''couples activities'']),
      ([''family''], [''family restaurants'', ''kid-friendly attractions'', ''water parks'']),
      ([''luxury''], [''luxury hotels'', ''fine dining'', ''high-end shopping'']),
      ([''traditional''], [''traditional souks'', ''cultural museums'', ''heritage sites''])]"

definition routeDefault :: "string list" where
  "routeDefault = [''top attractions'', ''best restaurants'', ''hidden gems'']"

section \<open>Reading the call log\<close>

fun is_embedding_call :: "external_call \<Rightarrow> bool" where
  "is_embedding_call (EmbeddingCall t) = True"
| "is_embedding_call (IndexSearchCall p) = False"

fun is_index_call :: "external_call \<Rightarrow> bool" where
  "is_index_call (EmbeddingCall t) = False"
| "is_index_call (IndexSearchCall p) = True"

section \<open>Example data\<close>

text \<open>Concrete locations, hits, services and requests at which the theorems are instantiated.\<close>

definition exBeach :: Location where
  "exBeach =
     \<lparr> loc_id = ''1'', loc_name = ''Jumeirah Beach'', loc_category = ''beach'',
       loc_description = ''Public beach with sunset views'',
       loc_tags = [''sunset'', ''beach'', ''romantic''],
       loc_latitude = 25.2, loc_longitude = 55.24, loc_rating = 4.5, loc_reviewCount = 120,
       loc_priceRange = ''$'', loc_imageUrl = None, loc_address = None,
       loc_openingHours = None, loc_verified = True,
       loc_halalCertified = Some False, loc_familyFriendly = Some True \<rparr>"

definition exMall :: Location where
  "exMall =
     \<lparr> loc_id = ''2'', loc_name = ''Dubai Mall'', loc_category = ''shopping'',
       loc_description = ''Large shopping mall'',
       loc_tags = [''luxury'', ''shopping''],
       loc_latitude = 25.19, loc_longitude = 55.27, loc_rating = 4.8, loc_reviewCount = 900,
       loc_priceRange = ''$$$'', loc_imageUrl = None, loc_address = None,
       loc_openingHours = None, loc_verified = True,
       loc_halalCertified = Some True, loc_familyFriendly = None \<rparr>"

definition exStall :: Location where
  "exStall =
     \<lparr> loc_id = ''3'', loc_name = ''Beach Stall'', loc_category = ''market'',
       loc_description = ''Snack stall at the beach'',
       loc_tags = [''cheap''],
       loc_latitude = 25.21, loc_longitude = 55.25, loc_rating = -1, loc_reviewCount = 0,
       loc_priceRange = ''$'', loc_imageUrl = None, loc_address = None,
       loc_openingHours = None, loc_verified = False,
       loc_halalCertified = None, loc_familyFriendly = Some False \<rparr>"

definition exPayload :: Payload where
  "exPayload =
     \<lparr> p_name = ''Jumeirah Beach'', p_description = ''Public beach with sunset views'',
       p_category = ''beach'', p_tags = Some [''sunset'', ''beach''], p_rating = 4.5,
       p_reviewCount = Some 120, p_priceRange = ''$'', p_imageUrl = None,
       p_latitude = Some 25.2, p_longitude = Some 55.24, p_verified = Some True,
       p_halalCertified = Some False, p_familyFriendly = Some True,
       p_openingHours = None, p_address = None \<rparr>"

definition exHitBeach :: Hit where
  "exHitBeach = \<lparr> hit_id = NumId 1, score = 0.9, payload = exPayload \<rparr>"

definition exHitMall :: Hit where
  "exHitMall =
     \<lparr> hit_id = NumId 2, score = 0.7,
       payload = exPayload \<lparr> p_name := ''Dubai Mall'', p_category := ''shopping'',
                   p_rating := 4.8, p_halalCertified := Some True \<rparr> \<rparr>"

definition exHitEquator :: Hit where
  "exHitEquator =
     \<lparr> hit_id = NumId 3, score = 0.5,
       payload = exPayload \<lparr> p_name := ''Equator Marker'', p_latitude := Some 0 \<rparr> \<rparr>"

text \<open>
  A small index for the examples: it keeps the stored hits that satisfy every condition of
  the filter, in stored order, and cuts the list at the limit.
\<close>

definition exIndex :: "Hit list \<Rightarrow> SearchParams \<Rightarrow> error + Hit list" where
  "exIndex stored params =
     Inr (take (nat (sp_limit params))
            (filter (\<lambda>h. list_all (\<lambda>c. cond_holds c (payload h)) (mustConditions params))
               stored))"

text \<open>
  An arithmetic for the examples: exact on finite numbers, NaN elsewhere and for the square
  root of a negative number or a division by 0. It is not the arithmetic of doubles.
\<close>

fun lift1 :: "(real \<Rightarrow> real) \<Rightarrow> number \<Rightarrow> number" where
  "lift1 f (Finite x) = Finite (f x)"
| "lift1 f v = NaN"

fun lift2 :: "(real \<Rightarrow> real \<Rightarrow> real) \<Rightarrow> number \<Rightarrow> number \<Rightarrow> number" where
  "lift2 f (Finite x) (Finite y) = Finite (f x y)"
| "lift2 f v w = NaN"

definition exArith :: Arith where
  "exArith =
     \<lparr> num_add = lift2 (\<lambda>x y. x + y),
       num_sub = lift2 (\<lambda>x y. x - y),
       num_mul = lift2 (\<lambda>x y. x * y),
       num_div = (\<lambda>v w. if w = Finite 0 then NaN else lift2 (\<lambda>x y. x / y) v w),
       Math_sin = lift1 sin,
       Math_cos = lift1 cos,
       Math_sqrt = (\<lambda>v. case v of Finite x \<Rightarrow> (if x < 0 then NaN else Finite (sqrt x))
                              | _ \<Rightarrow> NaN),
       Math_atan2 = lift2 (\<lambda>y x.
         if 0 < x then arctan (y / x)
         else if x < 0 then (if 0 \<le> y then arctan (y / x) + pi else arctan (y / x) - pi)
         else if 0 < y then pi / 2
         else if y < 0 then - (pi / 2)
         else 0),
       Math_round = lift1 (\<lambda>x. of_int \<lfloor>x + 1 / 2\<rfloor>),
       Math_PI = Finite pi \<rparr>"

definition exServices :: Services where
  "exServices =
     \<lparr> generateEmbedding = (\<lambda>text. Inr [1, 0, 0]),
       qdrantSearch = exIndex [exHitBeach, exHitMall, exHitEquator],
       arith = exArith \<rparr>"

definition exEmbeddingDown :: Services where
  "exEmbeddingDown =
     \<lparr> generateEmbedding = (\<lambda>text. Inl (Error ''Failed to generate embedding'')),
       qdrantSearch = exIndex [exHitBeach, exHitMall, exHitEquator],
       arith = exArith \<rparr>"

definition exIndexDown :: Services where
  "exIndexDown =
     \<lparr> generateEmbedding = (\<lambda>text. Inr [1, 0, 0]),
       qdrantSearch = (\<lambda>params. Inl (Error ''index unavailable'')),
       arith = exArith \<rparr>"

definition noFilters :: SearchFilters where
  "noFilters =
     \<lparr> f_category = None, f_priceRange = None, f_rating = None,
       f_halalCertified = None, f_familyFriendly = None \<rparr>"

definition exRequest :: SearchRequest where
  "exRequest =
     \<lparr> req_query = ''beach'', req_filters = None, req_limit = None,
       req_userLocation = None \<rparr>"

definition exRoute :: "SearchBody \<Rightarrow> Route" where
  "exRoute b =
     \<lparr> auth = Inr (Some ''user_1''),
       rateLimitCheck = (\<lambda>userId. \<lparr> allowed = True, resetTime = 0 \<rparr>),
       requestJson = Inr (Some b),
       typeErrorMessage = ''Cannot read properties of null'',
       getAllLocations = [exBeach, exMall, exStall],
       startTime = 100, endTime = 103,
       toLocaleTimeString = (\<lambda>t. ''12:00:00'') \<rparr>"

definition exNotHalal :: SearchFilters where
  "exNotHalal = noFilters \<lparr> f_halalCertified := Some False \<rparr>"

definition exRating45 :: SearchFilters where
  "exRating45 = noFilters \<lparr> f_rating := Some 4.5 \<rparr>"

definition exRating0 :: SearchFilters where
  "exRating0 = noFilters \<lparr> f_rating := Some 0 \<rparr>"

definition exBody :: SearchBody where
  "exBody = \<lparr> body_query = JString ''beach'', body_filters = None, body_limit = None \<rparr>"

definition exNearRequest :: SearchRequest where
  "exNearRequest = exRequest \<lparr> req_userLocation := Some \<lparr> lat = 25.2, lng = 55.27 \<rparr> \<rparr>"

section \<open>Properties of the string functions\<close>

lemma str_includes_iff: "str_includes s w \<longleftrightarrow> (\<exists>ps ss. s = ps @ w @ ss)"
proof -
  have "str_includes s w \<longleftrightarrow> sublist w s"
    by (induction s) (auto simp: sublist_Cons_right)
  then show ?thesis by (simp add: sublist_def)
qed

lemma split_space_nonempty: "split_space s \<noteq> []"
  by (induction s) (auto split: list.splits)

lemma split_space_no_space: "w \<in> set (split_space s) \<Longrightarrow> CHR '' '' \<notin> set w"
  by (induction s arbitrary: w) (auto split: list.splits if_splits)

lemma queryWords_nonempty: "0 < length (queryWords q)"
  by (simp add: queryWords_def split_space_nonempty)

lemma lower_char_idem: "lower_char (lower_char c) = lower_char c"
  unfolding lower_char_def
  by (auto split: option.splits dest!: map_of_SomeD)

lemma toLowerCase_idem: "toLowerCase (toLowerCase s) = toLowerCase s"
  by (simp add: toLowerCase_def lower_char_idem)

lemmas string_eval = toLowerCase_def lower_char_def

section \<open>Properties of the in-memory search\<close>

lemma matchCount_le: "matchCount q loc \<le> length (queryWords q)"
  by (simp add: matchCount_def)

lemma matchCount_pos_iff:
  "0 < matchCount q loc \<longleftrightarrow> (\<exists>w \<in> set (queryWords q). str_includes (searchText loc) w)"
  by (simp add: matchCount_def filter_empty_conv)

lemma score_scoreLocation:
  "similarityScore (scoreLocation q loc) = real (matchCount q loc) / real (length (queryWords q))"
  by (simp add: scoreLocation_def)

lemma score_range:
  "0 \<le> similarityScore (scoreLocation q loc) \<and> similarityScore (scoreLocation q loc) \<le> 1"
  using matchCount_le [of q loc] queryWords_nonempty [of q]
  by (simp add: score_scoreLocation)

lemma score_pos_iff:
  "0 < similarityScore (scoreLocation q loc) \<longleftrightarrow>
     (\<exists>w \<in> set (queryWords q). str_includes (searchText loc) w)"
  using queryWords_nonempty [of q]
  by (simp add: score_scoreLocation matchCount_pos_iff [symmetric] zero_less_divide_iff)

lemma set_sortByScore: "set (sortByScore rs) = set rs"
  by (simp add: sortByScore_def)

lemma sorted_sortByScore:
  "sorted_wrt (\<lambda>a b. b \<le> a) (map similarityScore (sortByScore rs))"
proof -
  have "sorted (map (\<lambda>r. - similarityScore r) (sortByScore rs))"
    unfolding sortByScore_def by (rule sorted_sort_key)
  then show ?thesis by (simp add: sorted_wrt_map)
qed

lemma results_inMemory:
  "results (performInMemorySearch locs st en q f) =
     take 10 (sortByScore (filter (keepResult f) (map (scoreLocation q) locs)))"
  by (simp add: performInMemorySearch_def Let_def)

lemma in_results_inMemory:
  assumes "r \<in> set (results (performInMemorySearch locs st en q f))"
  shows "keepResult f r \<and> (\<exists>loc \<in> set locs. r = scoreLocation q loc)"
proof -
  from assms have "r \<in> set (sortByScore (filter (keepResult f) (map (scoreLocation q) locs)))"
    unfolding results_inMemory by (rule in_set_takeD)
  then show ?thesis by (auto simp: set_sortByScore)
qed

lemma keepResult_score: "keepResult f r \<Longrightarrow> similarityScore r \<noteq> 0"
  by (auto simp: keepResult_def split: if_splits)

lemmas inMemory_eval =
  performInMemorySearch_def sortByScore_def keepResult_def scoreLocation_def matchCount_def
  queryWords_def searchText_def toLowerCase_def lower_char_def
  exBeach_def exMall_def exStall_def noFilters_def

text \<open>
  Every returned result has a positive score, and the score is positive exactly when some
  piece of \<open>queryWords\<close>, the empty piece included, occurs in the text.
\<close>

lemma results_match_a_piece:
  "(\<forall>r \<in> set (results (performInMemorySearch locs st en q f)).
      0 < similarityScore r \<and>
      (\<exists>loc \<in> set locs. r = scoreLocation q loc \<and>
         (\<exists>w \<in> set (queryWords q). str_includes (searchText loc) w)))
   \<and> (\<forall>loc. (\<forall>w \<in> set (queryWords q). \<not> str_includes (searchText loc) w) \<longrightarrow>
         scoreLocation q loc \<notin> set (results (performInMemorySearch locs st en q f)))
   \<and> (\<forall>loc. 0 < similarityScore (scoreLocation q loc) \<longleftrightarrow>
         (\<exists>w \<in> set (queryWords q). str_includes (searchText loc) w))"
proof (intro conjI ballI allI impI)
  fix r assume mem: "r \<in> set (results (performInMemorySearch locs st en q f))"
  then obtain loc where loc: "loc \<in> set locs" "r = scoreLocation q loc" and keep: "keepResult f r"
    using in_results_inMemory by blast
  from keep have "similarityScore r \<noteq> 0" by (rule keepResult_score)
  with score_range [of q loc] loc show pos: "0 < similarityScore r" by simp
  with loc have "\<exists>w \<in> set (queryWords q). str_includes (searchText loc) w"
    by (simp add: score_pos_iff)
  with loc show "\<exists>loc \<in> set locs. r = scoreLocation q loc \<and>
         (\<exists>w \<in> set (queryWords q). str_includes (searchText loc) w)" by blast
next
  fix loc assume no: "\<forall>w \<in> set (queryWords q). \<not> str_includes (searchText loc) w"
  show "scoreLocation q loc \<notin> set (results (performInMemorySearch locs st en q f))"
  proof
    assume "scoreLocation q loc \<in> set (results (performInMemorySearch locs st en q f))"
    then have "keepResult f (scoreLocation q loc)" using in_results_inMemory by blast
    then have "similarityScore (scoreLocation q loc) \<noteq> 0" by (rule keepResult_score)
    with score_range [of q loc] have "0 < similarityScore (scoreLocation q loc)" by simp
    with no show False by (simp add: score_pos_iff)
  qed
next
  fix loc show "0 < similarityScore (scoreLocation q loc) \<longleftrightarrow>
         (\<exists>w \<in> set (queryWords q). str_includes (searchText loc) w)"
    by (rule score_pos_iff)
qed

section \<open>Properties of the vector-index search\<close>

lemma searchLocations_embedding_fails:
  "generateEmbedding sv (req_query req) = Inl e \<Longrightarrow>
   searchLocations sv st en req = ([EmbeddingCall (req_query req)], Inl e)"
  by (simp add: searchLocations_def)

lemma searchLocations_index_fails:
  "generateEmbedding sv (req_query req) = Inr emb \<Longrightarrow>
   qdrantSearch sv (searchParams req emb) = Inl e \<Longrightarrow>
   searchLocations sv st en req =
     ([EmbeddingCall (req_query req), IndexSearchCall (searchParams req emb)], Inl e)"
  by (simp add: searchLocations_def Let_def)

lemma searchLocations_ok:
  "generateEmbedding sv (req_query req) = Inr emb \<Longrightarrow>
   qdrantSearch sv (searchParams req emb) = Inr hits \<Longrightarrow>
   searchLocations sv st en req =
     ([EmbeddingCall (req_query req), IndexSearchCall (searchParams req emb)],
      Inr \<lparr> results = map (mapHit (arith sv) req) hits,
            total = length hits,
            queryTimeMs = en - st,
            suggestions = generateSearchSuggestions (req_query req) \<rparr>)"
  by (simp add: searchLocations_def Let_def)

lemma similarityScore_mapHit: "similarityScore (mapHit ar req h) = score h"
  by (simp add: mapHit_def Let_def)

lemma map_score_mapHit: "map similarityScore (map (mapHit ar req) hits) = map score hits"
  by (simp add: similarityScore_mapHit)

lemmas index_eval =
  exServices_def exIndex_def mustConditions_def searchParams_def buildFilter_def
  effectiveLimit_def exRequest_def exHitBeach_def exHitMall_def exHitEquator_def exPayload_def
  payload_bool_def payload_string_def payload_number_def

section \<open>Properties of the filters\<close>

lemma keepResult_halal:
  "keepResult (Some fs) r \<Longrightarrow> f_halalCertified fs = Some b \<Longrightarrow> halalCertified r = Some b"
  by (auto simp: keepResult_def split: if_splits)

lemma keepResult_family:
  "keepResult (Some fs) r \<Longrightarrow> f_familyFriendly fs = Some b \<Longrightarrow> familyFriendly r = Some b"
  by (auto simp: keepResult_def split: if_splits)

lemma keepResult_rating:
  "keepResult (Some fs) r \<Longrightarrow> f_rating fs = Some x \<Longrightarrow> x \<noteq> 0 \<Longrightarrow> x \<le> rating r"
  by (auto simp: keepResult_def split: if_splits)

lemma keepResult_halal_unset:
  "f_halalCertified fs = None \<Longrightarrow>
   keepResult (Some fs) (r\<lparr>halalCertified := v\<rparr>) = keepResult (Some fs) r"
  by (simp add: keepResult_def)

lemma keepResult_family_unset:
  "f_familyFriendly fs = None \<Longrightarrow>
   keepResult (Some fs) (r\<lparr>familyFriendly := v\<rparr>) = keepResult (Some fs) r"
  by (simp add: keepResult_def)

lemma keepResult_rating_unset:
  "\<not> truthy_num (f_rating fs) \<Longrightarrow>
   keepResult (Some fs) (r\<lparr>rating := v\<rparr>) = keepResult (Some fs) r"
  by (simp add: keepResult_def)

lemma keepResult_rating_met:
  "f_rating fs = Some x \<Longrightarrow> x \<le> rating r \<Longrightarrow>
   keepResult (Some fs) r = keepResult (Some (fs\<lparr>f_rating := None\<rparr>)) r"
  by (simp add: keepResult_def)

lemma buildFilter_halal:
  "filter (\<lambda>c. cond_key c = ''halalCertified'') (buildFilter (Some fs)) =
     (case f_halalCertified fs of None \<Rightarrow> [] | Some b \<Rightarrow> [Match ''halalCertified'' (MatchBool b)])"
  by (simp add: buildFilter_def split: option.splits)

lemma buildFilter_family:
  "filter (\<lambda>c. cond_key c = ''familyFriendly'') (buildFilter (Some fs)) =
     (case f_familyFriendly fs of None \<Rightarrow> [] | Some b \<Rightarrow> [Match ''familyFriendly'' (MatchBool b)])"
  by (simp add: buildFilter_def split: option.splits)

lemma buildFilter_rating:
  "filter (\<lambda>c. cond_key c = ''rating'') (buildFilter (Some fs)) =
     (if truthy_num (f_rating fs) then [RangeGte ''rating'' (the (f_rating fs))] else [])"
  by (simp add: buildFilter_def split: option.splits)

lemma mustConditions_searchParams:
  "mustConditions (searchParams req emb) = buildFilter (req_filters req)"
  by (simp add: mustConditions_def searchParams_def Let_def)

lemma honoursFilter_cond:
  "honoursFilter params hits \<Longrightarrow> h \<in> set hits \<Longrightarrow> c \<in> set (mustConditions params) \<Longrightarrow>
   cond_holds c (payload h)"
  by (auto simp: honoursFilter_def list_all_iff)

lemma in_filter_keyD: "filter P xs = [c] \<Longrightarrow> c \<in> set xs"
proof -
  assume "filter P xs = [c]"
  then have "c \<in> set (filter P xs)" by simp
  then show ?thesis by simp
qed

lemma honoured_halal:
  assumes "honoursFilter (searchParams req emb) hits" "req_filters req = Some fs"
    "f_halalCertified fs = Some b" "h \<in> set hits"
  shows "halalCertified (mapHit ar req h) = Some b"
proof -
  from assms(2,3) have "Match ''halalCertified'' (MatchBool b) \<in> set (buildFilter (req_filters req))"
    using buildFilter_halal [of fs] by (auto dest: in_filter_keyD)
  then have "Match ''halalCertified'' (MatchBool b) \<in> set (mustConditions (searchParams req emb))"
    by (simp add: mustConditions_searchParams)
  from honoursFilter_cond [OF assms(1) assms(4) this]
  have "cond_holds (Match ''halalCertified'' (MatchBool b)) (payload h)" .
  then show ?thesis by (simp add: payload_bool_def mapHit_def Let_def)
qed

lemma honoured_family:
  assumes "honoursFilter (searchParams req emb) hits" "req_filters req = Some fs"
    "f_familyFriendly fs = Some b" "h \<in> set hits"
  shows "familyFriendly (mapHit ar req h) = Some b"
proof -
  from assms(2,3) have "Match ''familyFriendly'' (MatchBool b) \<in> set (buildFilter (req_filters req))"
    using buildFilter_family [of fs] by (auto dest: in_filter_keyD)
  then have "Match ''familyFriendly'' (MatchBool b) \<in> set (mustConditions (searchParams req emb))"
    by (simp add: mustConditions_searchParams)
  from honoursFilter_cond [OF assms(1) assms(4) this]
  have "cond_holds (Match ''familyFriendly'' (MatchBool b)) (payload h)" .
  then show ?thesis by (simp add: payload_bool_def mapHit_def Let_def)
qed

lemma honoured_rating:
  assumes "honoursFilter (searchParams req emb) hits" "req_filters req = Some fs"
    "f_rating fs = Some x" "x \<noteq> 0" "h \<in> set hits"
  shows "x \<le> rating (mapHit ar req h)"
proof -
  from assms(2,3,4) have "RangeGte ''rating'' x \<in> set (buildFilter (req_filters req))"
    using buildFilter_rating [of fs] by (auto dest: in_filter_keyD)
  then have "RangeGte ''rating'' x \<in> set (mustConditions (searchParams req emb))"
    by (simp add: mustConditions_searchParams)
  from honoursFilter_cond [OF assms(1) assms(5) this]
  have "cond_holds (RangeGte ''rating'' x) (payload h)" .
  then show ?thesis by (simp add: payload_number_def mapHit_def Let_def)
qed

section \<open>Properties of the orchestrator\<close>

lemma searchLocations_calls:
  "fst (searchLocations sv st en req) = [EmbeddingCall (req_query req)] \<or>
   (\<exists>emb. fst (searchLocations sv st en req) =
      [EmbeddingCall (req_query req), IndexSearchCall (searchParams req emb)])"
  by (auto simp: searchLocations_def Let_def split: sum.splits)

lemma searchLocations_Inr:
  assumes "snd (searchLocations sv st en req) = Inr resp"
  shows "\<exists>emb hits. generateEmbedding sv (req_query req) = Inr emb \<and>
           qdrantSearch sv (searchParams req emb) = Inr hits \<and>
           results resp = map (mapHit (arith sv) req) hits \<and> total resp = length hits"
  using assms by (auto simp: searchLocations_def Let_def split: sum.splits)

section \<open>Properties of the search route\<close>






lemma POST_unauthenticated:
  "auth r = Inr None \<or> auth r = Inr (Some []) \<Longrightarrow> status (POST r) = 401 \<and> searches (POST r) = []"
  by (auto simp: POST_def)

lemma POST_null_body:
  "auth r = Inr (Some uid) \<Longrightarrow> uid \<noteq> [] \<Longrightarrow> allowed (rateLimitCheck r uid) \<Longrightarrow>
   requestJson r = Inr None \<Longrightarrow> status (POST r) = 500 \<and> searches (POST r) = []"
  by (simp add: POST_def internalError_def Let_def)

section \<open>Further properties\<close>

text \<open>
  \<open>total\<close> is the number of results, and the in-memory search returns at most 10 of
  them; the result mapper gives a distance exactly when the request has a user location and
  the stored latitude and longitude are present and not 0.
\<close>

lemma total_inMemory:
  "total (performInMemorySearch locs st en q f)
     = length (results (performInMemorySearch locs st en q f))"
  by (simp add: performInMemorySearch_def Let_def)

lemma length_results_inMemory:
  "length (results (performInMemorySearch locs st en q f)) \<le> 10"
  by (simp add: results_inMemory)

lemma total_searchLocations:
  "snd (searchLocations sv st en req) = Inr resp \<Longrightarrow> total resp = length (results resp)"
  by (auto simp: searchLocations_def Let_def split: sum.splits)

lemma hitDistance_Some:
  "req_userLocation req = Some u \<Longrightarrow> p_latitude p = Some la \<Longrightarrow> la \<noteq> 0 \<Longrightarrow>
   p_longitude p = Some lo \<Longrightarrow> lo \<noteq> 0 \<Longrightarrow>
   hitDistance ar req p =
     Some (calculateDistance ar (Finite (lat u)) (Finite (lng u)) (Finite la) (Finite lo))"
  by (simp add: hitDistance_def)

lemma hitDistance_None:
  "req_userLocation req = None \<or> \<not> truthy_num (p_latitude p) \<or>
   \<not> truthy_num (p_longitude p) \<Longrightarrow>
   hitDistance ar req p = None"
  by (auto simp: hitDistance_def split: option.splits)

section \<open>Claims\<close>

text \<open>
  C1. Explicit boolean filters. The filter builder adds the equality constraint on
  halalCertified exactly when \<open>filters.halalCertified\<close> is present, the value false
  included, and none when it is absent; the same holds for familyFriendly. Every result of
  the in-memory search satisfies a present constraint, and an absent one has no influence on
  which results are kept. Every result of the vector-index search satisfies it whenever the
  hits of the index satisfy the filter they were asked with.
\<close>

theorem explicit_boolean_filters:
  "filter (\<lambda>c. cond_key c = ''halalCertified'') (buildFilter (Some fs)) =
     (case f_halalCertified fs of
        None \<Rightarrow> [] | Some b \<Rightarrow> [Match ''halalCertified'' (MatchBool b)])
   \<and> filter (\<lambda>c. cond_key c = ''familyFriendly'') (buildFilter (Some fs)) =
     (case f_familyFriendly fs of
        None \<Rightarrow> [] | Some b \<Rightarrow> [Match ''familyFriendly'' (MatchBool b)])
   \<and> buildFilter None = []
   \<and> (\<forall>b. f_halalCertified fs = Some b \<longrightarrow>
         (\<forall>r \<in> set (results (performInMemorySearch locs st en q (Some fs))).
            halalCertified r = Some b))
   \<and> (\<forall>b. f_familyFriendly fs = Some b \<longrightarrow>
         (\<forall>r \<in> set (results (performInMemorySearch locs st en q (Some fs))).
            familyFriendly r = Some b))
   \<and> (f_halalCertified fs = None \<longrightarrow>
         (\<forall>r v. keepResult (Some fs) (r\<lparr>halalCertified := v\<rparr>) = keepResult (Some fs) r))
   \<and> (f_familyFriendly fs = None \<longrightarrow>
         (\<forall>r v. keepResult (Some fs) (r\<lparr>familyFriendly := v\<rparr>) = keepResult (Some fs) r))
   \<and> (\<forall>emb hits.
         req_filters req = Some fs \<and>
         generateEmbedding sv (req_query req) = Inr emb \<and>
         qdrantSearch sv (searchParams req emb) = Inr hits \<and>
         honoursFilter (searchParams req emb) hits \<longrightarrow>
         (\<exists>resp. snd (searchLocations sv st en req) = Inr resp \<and>
            (\<forall>b. f_halalCertified fs = Some b \<longrightarrow>
               (\<forall>r \<in> set (results resp). halalCertified r = Some b)) \<and>
            (\<forall>b. f_familyFriendly fs = Some b \<longrightarrow>
               (\<forall>r \<in> set (results resp). familyFriendly r = Some b))))"
proof (intro conjI allI impI ballI)
  show "filter (\<lambda>c. cond_key c = ''halalCertified'') (buildFilter (Some fs)) =
     (case f_halalCertified fs of
        None \<Rightarrow> [] | Some b \<Rightarrow> [Match ''halalCertified'' (MatchBool b)])"
    by (rule buildFilter_halal)
  show "filter (\<lambda>c. cond_key c = ''familyFriendly'') (buildFilter (Some fs)) =
     (case f_familyFriendly fs of
        None \<Rightarrow> [] | Some b \<Rightarrow> [Match ''familyFriendly'' (MatchBool b)])"
    by (rule buildFilter_family)
  show "buildFilter None = []" by (simp add: buildFilter_def)
next
  fix b r assume "f_halalCertified fs = Some b"
    "r \<in> set (results (performInMemorySearch locs st en q (Some fs)))"
  then show "halalCertified r = Some b"
    using in_results_inMemory keepResult_halal by blast
next
  fix b r assume "f_familyFriendly fs = Some b"
    "r \<in> set (results (performInMemorySearch locs st en q (Some fs)))"
  then show "familyFriendly r = Some b"
    using in_results_inMemory keepResult_family by blast
next
  fix r v assume "f_halalCertified fs = None"
  then show "keepResult (Some fs) (r\<lparr>halalCertified := v\<rparr>) = keepResult (Some fs) r"
    by (rule keepResult_halal_unset)
next
  fix r v assume "f_familyFriendly fs = None"
  then show "keepResult (Some fs) (r\<lparr>familyFriendly := v\<rparr>) = keepResult (Some fs) r"
    by (rule keepResult_family_unset)
next
  fix emb hits
  assume a: "req_filters req = Some fs \<and>
         generateEmbedding sv (req_query req) = Inr emb \<and>
         qdrantSearch sv (searchParams req emb) = Inr hits \<and>
         honoursFilter (searchParams req emb) hits"
  let ?resp = "\<lparr> results = map (mapHit (arith sv) req) hits, total = length hits,
            queryTimeMs = en - st,
            suggestions = generateSearchSuggestions (req_query req) \<rparr>"
  from a have "snd (searchLocations sv st en req) = Inr ?resp"
    by (simp add: searchLocations_ok)
  moreover have "\<forall>b. f_halalCertified fs = Some b \<longrightarrow>
               (\<forall>r \<in> set (results ?resp). halalCertified r = Some b)"
    using a by (auto intro: honoured_halal)
  moreover have "\<forall>b. f_familyFriendly fs = Some b \<longrightarrow>
               (\<forall>r \<in> set (results ?resp). familyFriendly r = Some b)"
    using a by (auto intro: honoured_family)
  ultimately show "\<exists>resp. snd (searchLocations sv st en req) = Inr resp \<and>
            (\<forall>b. f_halalCertified fs = Some b \<longrightarrow>
               (\<forall>r \<in> set (results resp). halalCertified r = Some b)) \<and>
            (\<forall>b. f_familyFriendly fs = Some b \<longrightarrow>
               (\<forall>r \<in> set (results resp). familyFriendly r = Some b))"
    by blast
qed

theorem explicit_boolean_filters_witness:
  "f_halalCertified exNotHalal = Some False
   \<and> buildFilter (Some exNotHalal) = [Match ''halalCertified'' (MatchBool False)]
   \<and> map result_id (results (performInMemorySearch [exBeach, exMall, exStall] 0 3
         ''beach mall stall'' (Some exNotHalal))) = [''1'']
   \<and> list_all (\<lambda>r. halalCertified r = Some False)
        (results (performInMemorySearch [exBeach, exMall, exStall] 0 3
           ''beach mall stall'' (Some exNotHalal)))
   \<and> qdrantSearch exServices
        (searchParams (exRequest \<lparr> req_filters := Some exNotHalal \<rparr>) [1, 0, 0])
        = Inr [exHitBeach, exHitEquator]
   \<and> (\<exists>resp. snd (searchLocations exServices 0 3
                     (exRequest \<lparr> req_filters := Some exNotHalal \<rparr>)) = Inr resp
          \<and> list_all (\<lambda>r. halalCertified r = Some False) (results resp))"
proof -
  let ?req = "exRequest \<lparr> req_filters := Some exNotHalal \<rparr>"
  note T = explicit_boolean_filters
    [of exNotHalal "[exBeach, exMall, exStall]" 0 3 "''beach mall stall''" ?req exServices]
  have f: "f_halalCertified exNotHalal = Some False"
    by (simp add: exNotHalal_def noFilters_def)
  have bf: "buildFilter (Some exNotHalal) = [Match ''halalCertified'' (MatchBool False)]"
    by (simp add: buildFilter_def exNotHalal_def noFilters_def)
  have ids: "map result_id (results (performInMemorySearch [exBeach, exMall, exStall] 0 3
         ''beach mall stall'' (Some exNotHalal))) = [''1'']"
    by (simp add: inMemory_eval exNotHalal_def)
  from T f have mem: "list_all (\<lambda>r. halalCertified r = Some False)
        (results (performInMemorySearch [exBeach, exMall, exStall] 0 3
           ''beach mall stall'' (Some exNotHalal)))"
    unfolding list_all_iff by blast
  have rf: "req_filters ?req = Some exNotHalal" by (simp add: exRequest_def)
  have emb: "generateEmbedding exServices (req_query ?req) = Inr [1, 0, 0]"
    by (simp add: exServices_def)
  have hits: "qdrantSearch exServices (searchParams ?req [1, 0, 0])
        = Inr [exHitBeach, exHitEquator]"
    by (simp add: index_eval exNotHalal_def noFilters_def)
  have hon: "honoursFilter (searchParams ?req [1, 0, 0]) [exHitBeach, exHitEquator]"
    by (simp add: honoursFilter_def index_eval exNotHalal_def noFilters_def)
  note L = T [THEN conjunct2, THEN conjunct2, THEN conjunct2, THEN conjunct2,
    THEN conjunct2, THEN conjunct2, THEN conjunct2, rule_format]
  from L [OF conjI [OF rf conjI [OF emb conjI [OF hits hon]]]]
  obtain resp where resp: "snd (searchLocations exServices 0 3 ?req) = Inr resp"
    and all: "\<forall>b. f_halalCertified exNotHalal = Some b \<longrightarrow>
               (\<forall>r \<in> set (results resp). halalCertified r = Some b)"
    by blast
  from all f have "list_all (\<lambda>r. halalCertified r = Some False) (results resp)"
    unfolding list_all_iff by blast
  with resp
  have idx: "\<exists>resp. snd (searchLocations exServices 0 3 ?req) = Inr resp
          \<and> list_all (\<lambda>r. halalCertified r = Some False) (results resp)"
    by blast
  from f bf ids mem hits idx show ?thesis by blast
qed

text \<open>
  C2. The route at a request with limit 1: the in-memory search is not given the limit and
  cuts at 10, so two locations matching beach come back, and total is 2.
\<close>

theorem route_ignores_limit:
  "body_limit (exBody \<lparr> body_limit := Some 1 \<rparr>) = Some 1
   \<and> (\<exists>resp. body (POST (exRoute (exBody \<lparr> body_limit := Some 1 \<rparr>))) = ApiData resp
         \<and> map result_id (results resp) = [''1'', ''3'']
         \<and> total resp = 2)"
  by (simp add: POST_def exRoute_def exBody_def inMemory_eval)

theorem route_ignores_limit_witness:
  "\<exists>resp. body (POST (exRoute (exBody \<lparr> body_limit := Some 1 \<rparr>))) = ApiData resp
      \<and> length (results resp) = 2"
proof -
  from route_ignores_limit [THEN conjunct2] obtain resp
    where a: "body (POST (exRoute (exBody \<lparr> body_limit := Some 1 \<rparr>))) = ApiData resp"
      and b: "map result_id (results resp) = [''1'', ''3'']"
    by (elim exE conjE)
  from b have "length (map result_id (results resp)) = 2" by simp
  then have "length (results resp) = 2" by simp
  with a show ?thesis by blast
qed

text \<open>
  C3. The result mapper at a hit stored with latitude 0 (a point of the equator) and
  longitude 55.24, for a request that supplies a user location: the test
  \<open>payload.latitude && payload.longitude\<close> reads the 0 as absent and the result has no
  distance, where the hit stored at latitude 25.2 has one. This holds for every arithmetic
  \<open>ar\<close> of the engine.
\<close>

theorem zero_latitude_hit_has_no_distance:
  "req_userLocation exNearRequest = Some \<lparr> lat = 25.2, lng = 55.27 \<rparr>
   \<and> p_latitude (payload exHitEquator) = Some 0
   \<and> p_longitude (payload exHitEquator) = Some 55.24
   \<and> distance (mapHit ar exNearRequest exHitEquator) = None
   \<and> distance (mapHit ar exNearRequest exHitBeach)
       = Some (calculateDistance ar (Finite 25.2) (Finite 55.27) (Finite 25.2) (Finite 55.24))
   \<and> (\<exists>resp. snd (searchLocations exServices 0 3 exNearRequest) = Inr resp
         \<and> map distance (results resp)
             = [Some (calculateDistance (arith exServices)
                        (Finite 25.2) (Finite 55.27) (Finite 25.2) (Finite 55.24)),
                Some (calculateDistance (arith exServices)
                        (Finite 25.2) (Finite 55.27) (Finite 25.2) (Finite 55.24)),
                None])"
  by (simp add: searchLocations_def mapHit_def hitDistance_def exNearRequest_def index_eval)

text \<open>
  C4 (amended). Each suggestion generator is a function of the lower-cased query that returns
  exactly 3 strings: the set of the first rule, in priority order, one of whose keywords
  occurs in the lower-cased query, and its default set when no rule matches (as for the
  query x). The generator of the vector-index service has the rules romantic/sunset,
  family/kids, luxury/expensive, cheap/budget; the generator of the search route has the
  rules romantic, family, luxury, traditional, so that sunset, kids, expensive, cheap and
  budget are no keywords of it.
\<close>

theorem suggestion_generators_first_match:
  "generateSearchSuggestions q = firstMatch (toLowerCase q) serviceRules serviceDefault
   \<and> generateSuggestions q = firstMatch (toLowerCase q) routeRules routeDefault
   \<and> length (generateSearchSuggestions q) = 3
   \<and> length (generateSuggestions q) = 3
   \<and> generateSearchSuggestions q \<in> snd ` set serviceRules \<union> {serviceDefault}
   \<and> generateSuggestions q \<in> snd ` set routeRules \<union> {routeDefault}
   \<and> generateSearchSuggestions (toLowerCase q) = generateSearchSuggestions q
   \<and> generateSuggestions (toLowerCase q) = generateSuggestions q
   \<and> generateSearchSuggestions ''x'' = serviceDefault
   \<and> generateSuggestions ''x'' = routeDefault"
proof (intro conjI)
  show "generateSearchSuggestions q = firstMatch (toLowerCase q) serviceRules serviceDefault"
    by (simp add: generateSearchSuggestions_def serviceRules_def serviceDefault_def Let_def)
  show "generateSuggestions q = firstMatch (toLowerCase q) routeRules routeDefault"
    by (simp add: generateSuggestions_def routeRules_def routeDefault_def Let_def)
  show "length (generateSearchSuggestions q) = 3"
    by (simp add: generateSearchSuggestions_def Let_def)
  show "length (generateSuggestions q) = 3"
    by (simp add: generateSuggestions_def Let_def)
  show "generateSearchSuggestions q \<in> snd ` set serviceRules \<union> {serviceDefault}"
    by (simp add: generateSearchSuggestions_def serviceRules_def serviceDefault_def Let_def)
  show "generateSuggestions q \<in> snd ` set routeRules \<union> {routeDefault}"
    by (simp add: generateSuggestions_def routeRules_def routeDefault_def Let_def)
  show "generateSearchSuggestions (toLowerCase q) = generateSearchSuggestions q"
    by (simp add: generateSearchSuggestions_def toLowerCase_idem)
  show "generateSuggestions (toLowerCase q) = generateSuggestions q"
    by (simp add: generateSuggestions_def toLowerCase_idem)
  show "generateSearchSuggestions ''x'' = serviceDefault"
    by (simp add: generateSearchSuggestions_def serviceDefault_def string_eval)
  show "generateSuggestions ''x'' = routeDefault"
    by (simp add: generateSuggestions_def routeDefault_def string_eval)
qed

theorem suggestion_generators_first_match_witness:
  "generateSearchSuggestions ''Family trip at SUNSET''
     = [''romantic dinner with view'', ''sunset beach spots'', ''couples activities Dubai'']
   \<and> generateSuggestions ''Family trip at SUNSET''
     = [''family restaurants'', ''kid-friendly attractions'', ''water parks'']"
proof -
  note T = suggestion_generators_first_match [of "''Family trip at SUNSET''"]
  have low: "toLowerCase ''Family trip at SUNSET'' = ''family trip at sunset''"
    by (simp add: string_eval)
  from T have "generateSearchSuggestions ''Family trip at SUNSET''
     = firstMatch (toLowerCase ''Family trip at SUNSET'') serviceRules serviceDefault"
    by blast
  then have a: "generateSearchSuggestions ''Family trip at SUNSET''
     = [''romantic dinner with view'', ''sunset beach spots'', ''couples activities Dubai'']"
    by (simp add: low serviceRules_def)
  from T have "generateSuggestions ''Family trip at SUNSET''
     = firstMatch (toLowerCase ''Family trip at SUNSET'') routeRules routeDefault"
    by blast
  then have b: "generateSuggestions ''Family trip at SUNSET''
     = [''family restaurants'', ''kid-friendly attractions'', ''water parks'']"
    by (simp add: low routeRules_def)
  from a b show ?thesis by blast
qed

text \<open>
  Against C4 as stated: the search route's generator answers the queries sunset and kids on a budget with its default
  set, where the service's generator answers sunset with its romantic set.
\<close>

theorem route_suggestions_keywords_counterexample:
  "generateSuggestions ''sunset''
     = [''top attractions'', ''best restaurants'', ''hidden gems'']
   \<and> generateSuggestions ''kids on a budget''
     = [''top attractions'', ''best restaurants'', ''hidden gems'']
   \<and> generateSearchSuggestions ''sunset''
     = [''romantic dinner with view'', ''sunset beach spots'', ''couples activities Dubai'']"
  by (simp add: generateSuggestions_def generateSearchSuggestions_def string_eval)

text \<open>
  C5. Every result's similarity score lies in the closed interval from 0 to 1, and the
  results are sorted in descending order of similarity score. For the in-memory search this
  holds of every response. The vector-index search hands on the hits of the index in their
  order and with their scores, so its results are within bounds and sorted exactly when the
  hits of the index are.
\<close>

theorem similarity_scores_bounded_and_sorted:
  "(\<forall>r \<in> set (results (performInMemorySearch locs st en q f)).
       0 \<le> similarityScore r \<and> similarityScore r \<le> 1)
   \<and> sorted_wrt (\<lambda>a b. b \<le> a)
        (map similarityScore (results (performInMemorySearch locs st en q f)))
   \<and> (\<forall>emb hits.
         generateEmbedding sv (req_query req) = Inr emb \<and>
         qdrantSearch sv (searchParams req emb) = Inr hits \<longrightarrow>
         (\<exists>resp. snd (searchLocations sv st en req) = Inr resp \<and>
            map similarityScore (results resp) = map score hits \<and>
            ((\<forall>h \<in> set hits. 0 \<le> score h \<and> score h \<le> 1) \<longrightarrow>
               (\<forall>r \<in> set (results resp). 0 \<le> similarityScore r \<and> similarityScore r \<le> 1)) \<and>
            (sorted_wrt (\<lambda>a b. b \<le> a) (map score hits) \<longrightarrow>
               sorted_wrt (\<lambda>a b. b \<le> a) (map similarityScore (results resp)))))"
proof (intro conjI ballI allI impI)
  fix r assume "r \<in> set (results (performInMemorySearch locs st en q f))"
  then obtain loc where "r = scoreLocation q loc"
    using in_results_inMemory by blast
  then show "0 \<le> similarityScore r" "similarityScore r \<le> 1"
    using score_range by simp_all
next
  show "sorted_wrt (\<lambda>a b. b \<le> a)
        (map similarityScore (results (performInMemorySearch locs st en q f)))"
    unfolding results_inMemory take_map [symmetric]
    by (rule sorted_wrt_take) (rule sorted_sortByScore)
next
  fix emb hits
  assume ok: "generateEmbedding sv (req_query req) = Inr emb \<and>
         qdrantSearch sv (searchParams req emb) = Inr hits"
  let ?resp = "\<lparr> results = map (mapHit (arith sv) req) hits, total = length hits,
            queryTimeMs = en - st,
            suggestions = generateSearchSuggestions (req_query req) \<rparr>"
  from ok have "snd (searchLocations sv st en req) = Inr ?resp"
    by (simp add: searchLocations_ok)
  moreover have "map similarityScore (results ?resp) = map score hits"
    by (simp add: similarityScore_mapHit)
  moreover have "(\<forall>h \<in> set hits. 0 \<le> score h \<and> score h \<le> 1) \<longrightarrow>
      (\<forall>r \<in> set (results ?resp). 0 \<le> similarityScore r \<and> similarityScore r \<le> 1)"
    by (auto simp: similarityScore_mapHit)
  moreover have "sorted_wrt (\<lambda>a b. b \<le> a) (map score hits) \<longrightarrow>
               sorted_wrt (\<lambda>a b. b \<le> a) (map similarityScore (results ?resp))"
    by (simp add: comp_def similarityScore_mapHit)
  ultimately show "\<exists>resp. snd (searchLocations sv st en req) = Inr resp \<and>
            map similarityScore (results resp) = map score hits \<and>
            ((\<forall>h \<in> set hits. 0 \<le> score h \<and> score h \<le> 1) \<longrightarrow>
               (\<forall>r \<in> set (results resp). 0 \<le> similarityScore r \<and> similarityScore r \<le> 1)) \<and>
            (sorted_wrt (\<lambda>a b. b \<le> a) (map score hits) \<longrightarrow>
               sorted_wrt (\<lambda>a b. b \<le> a) (map similarityScore (results resp)))"
    by blast
qed

theorem similarity_scores_bounded_and_sorted_witness:
  "map similarityScore
     (results (performInMemorySearch [exBeach, exMall] 0 3 ''beach mall shopping'' None))
     = [2 / 3, 1 / 3]
   \<and> sorted_wrt (\<lambda>a b. b \<le> a) (map similarityScore
       (results (performInMemorySearch [exBeach, exMall] 0 3 ''beach mall shopping'' None)))
   \<and> generateEmbedding exServices (req_query exRequest) = Inr [1, 0, 0]
   \<and> qdrantSearch exServices (searchParams exRequest [1, 0, 0])
       = Inr [exHitBeach, exHitMall, exHitEquator]
   \<and> (\<exists>resp. snd (searchLocations exServices 0 3 exRequest) = Inr resp \<and>
         map similarityScore (results resp) = [0.9, 0.7, 0.5])"
proof -
  note T = similarity_scores_bounded_and_sorted
    [of "[exBeach, exMall]" 0 3 "''beach mall shopping''" None exServices exRequest]
  have scores: "map similarityScore
     (results (performInMemorySearch [exBeach, exMall] 0 3 ''beach mall shopping'' None))
     = [2 / 3, 1 / 3]"
    by (simp add: inMemory_eval)
  from T have sorted: "sorted_wrt (\<lambda>a b. b \<le> a) (map similarityScore
       (results (performInMemorySearch [exBeach, exMall] 0 3 ''beach mall shopping'' None)))"
    by blast
  have emb: "generateEmbedding exServices (req_query exRequest) = Inr [1, 0, 0]"
    by (simp add: exServices_def)
  have hits: "qdrantSearch exServices (searchParams exRequest [1, 0, 0])
       = Inr [exHitBeach, exHitMall, exHitEquator]"
    by (simp add: index_eval)
  from T emb hits have "\<exists>resp. snd (searchLocations exServices 0 3 exRequest) = Inr resp \<and>
         map similarityScore (results resp) = map score [exHitBeach, exHitMall, exHitEquator]"
    by blast
  then have idx: "\<exists>resp. snd (searchLocations exServices 0 3 exRequest) = Inr resp \<and>
         map similarityScore (results resp) = [0.9, 0.7, 0.5]"
    by (simp add: exHitBeach_def exHitMall_def exHitEquator_def)
  from scores sorted emb hits idx show ?thesis by blast
qed

text \<open>
  C6 (amended). Rating filter. Whenever \<open>filters.rating\<close> is present and not 0, the filter
  builder adds the range constraint rating \<open>\<ge>\<close> requested rating, and every returned result
  has a stored rating greater than or equal to the requested one; the bound is inclusive and
  there is no upper bound (a result that meets the bound is kept or dropped as if no rating
  had been requested). A requested rating that is absent or 0 adds no constraint and has no
  influence on which results are kept. For the vector-index search the results meet the
  bound whenever the hits of the index satisfy the filter they were asked with.
\<close>

theorem rating_filter_lower_bound:
  "filter (\<lambda>c. cond_key c = ''rating'') (buildFilter (Some fs)) =
     (if truthy_num (f_rating fs) then [RangeGte ''rating'' (the (f_rating fs))] else [])
   \<and> (\<forall>x. f_rating fs = Some x \<and> x \<noteq> 0 \<longrightarrow>
         (\<forall>r \<in> set (results (performInMemorySearch locs st en q (Some fs))). x \<le> rating r))
   \<and> (\<forall>x (r::SearchResult). f_rating fs = Some x \<and> x \<le> rating r \<longrightarrow>
         keepResult (Some fs) r = keepResult (Some (fs\<lparr>f_rating := None\<rparr>)) r)
   \<and> (\<not> truthy_num (f_rating fs) \<longrightarrow>
         (\<forall>r v. keepResult (Some fs) (r\<lparr>rating := v\<rparr>) = keepResult (Some fs) r))
   \<and> (\<forall>emb hits x.
         req_filters req = Some fs \<and> f_rating fs = Some x \<and> x \<noteq> 0 \<and>
         generateEmbedding sv (req_query req) = Inr emb \<and>
         qdrantSearch sv (searchParams req emb) = Inr hits \<and>
         honoursFilter (searchParams req emb) hits \<longrightarrow>
         (\<exists>resp. snd (searchLocations sv st en req) = Inr resp \<and>
            (\<forall>r \<in> set (results resp). x \<le> rating r)))"
proof (intro conjI allI impI ballI)
  show "filter (\<lambda>c. cond_key c = ''rating'') (buildFilter (Some fs)) =
     (if truthy_num (f_rating fs) then [RangeGte ''rating'' (the (f_rating fs))] else [])"
    by (rule buildFilter_rating)
next
  fix x r assume "f_rating fs = Some x \<and> x \<noteq> 0"
    "r \<in> set (results (performInMemorySearch locs st en q (Some fs)))"
  then show "x \<le> rating r"
    using in_results_inMemory keepResult_rating by blast
next
  fix x and r :: SearchResult assume "f_rating fs = Some x \<and> x \<le> rating r"
  then show "keepResult (Some fs) r = keepResult (Some (fs\<lparr>f_rating := None\<rparr>)) r"
    by (simp add: keepResult_rating_met)
next
  fix r v assume "\<not> truthy_num (f_rating fs)"
  then show "keepResult (Some fs) (r\<lparr>rating := v\<rparr>) = keepResult (Some fs) r"
    by (rule keepResult_rating_unset)
next
  fix emb hits x
  assume a: "req_filters req = Some fs \<and> f_rating fs = Some x \<and> x \<noteq> 0 \<and>
         generateEmbedding sv (req_query req) = Inr emb \<and>
         qdrantSearch sv (searchParams req emb) = Inr hits \<and>
         honoursFilter (searchParams req emb) hits"
  let ?resp = "\<lparr> results = map (mapHit (arith sv) req) hits, total = length hits,
            queryTimeMs = en - st,
            suggestions = generateSearchSuggestions (req_query req) \<rparr>"
  from a have "snd (searchLocations sv st en req) = Inr ?resp"
    by (simp add: searchLocations_ok)
  moreover have "\<forall>r \<in> set (results ?resp). x \<le> rating r"
    using a by (auto intro: honoured_rating)
  ultimately show "\<exists>resp. snd (searchLocations sv st en req) = Inr resp \<and>
            (\<forall>r \<in> set (results resp). x \<le> rating r)"
    by blast
qed

theorem rating_filter_lower_bound_witness:
  "f_rating exRating45 = Some 4.5
   \<and> buildFilter (Some exRating45) = [RangeGte ''rating'' 4.5]
   \<and> map rating (results (performInMemorySearch [exBeach, exMall, exStall] 0 3
         ''beach mall'' (Some exRating45))) = [4.5, 4.8]
   \<and> list_all (\<lambda>r. 4.5 \<le> rating r)
        (results (performInMemorySearch [exBeach, exMall, exStall] 0 3
           ''beach mall'' (Some exRating45)))
   \<and> qdrantSearch exServices
        (searchParams (exRequest \<lparr> req_filters := Some exRating45 \<rparr>) [1, 0, 0])
        = Inr [exHitBeach, exHitMall, exHitEquator]
   \<and> (\<exists>resp. snd (searchLocations exServices 0 3
                     (exRequest \<lparr> req_filters := Some exRating45 \<rparr>)) = Inr resp
          \<and> list_all (\<lambda>r. 4.5 \<le> rating r) (results resp))"
proof -
  let ?req = "exRequest \<lparr> req_filters := Some exRating45 \<rparr>"
  note T = rating_filter_lower_bound
    [of exRating45 "[exBeach, exMall, exStall]" 0 3 "''beach mall''" ?req exServices]
  have f: "f_rating exRating45 = Some 4.5"
    by (simp add: exRating45_def noFilters_def)
  have nz: "(4.5::real) \<noteq> 0" by simp
  have bf: "buildFilter (Some exRating45) = [RangeGte ''rating'' 4.5]"
    by (simp add: buildFilter_def exRating45_def noFilters_def)
  have rs: "map rating (results (performInMemorySearch [exBeach, exMall, exStall] 0 3
         ''beach mall'' (Some exRating45))) = [4.5, 4.8]"
    by (simp add: inMemory_eval exRating45_def)
  note M = T [THEN conjunct2, THEN conjunct1, rule_format]
  from M [OF conjI [OF f nz]]
  have mem: "list_all (\<lambda>r. 4.5 \<le> rating r)
        (results (performInMemorySearch [exBeach, exMall, exStall] 0 3
           ''beach mall'' (Some exRating45)))"
    unfolding list_all_iff by blast
  have rf: "req_filters ?req = Some exRating45" by (simp add: exRequest_def)
  have emb: "generateEmbedding exServices (req_query ?req) = Inr [1, 0, 0]"
    by (simp add: exServices_def)
  have hits: "qdrantSearch exServices (searchParams ?req [1, 0, 0])
        = Inr [exHitBeach, exHitMall, exHitEquator]"
    by (simp add: index_eval exRating45_def noFilters_def)
  have hon: "honoursFilter (searchParams ?req [1, 0, 0]) [exHitBeach, exHitMall, exHitEquator]"
    by (simp add: honoursFilter_def index_eval exRating45_def noFilters_def)
  note L = T [THEN conjunct2, THEN conjunct2, THEN conjunct2, THEN conjunct2, rule_format]
  from L [OF conjI [OF rf conjI [OF f conjI [OF nz conjI [OF emb conjI [OF hits hon]]]]]]
  obtain resp where resp: "snd (searchLocations exServices 0 3 ?req) = Inr resp"
    and all: "\<forall>r \<in> set (results resp). 4.5 \<le> rating r"
    by blast
  from all have "list_all (\<lambda>r. 4.5 \<le> rating r) (results resp)"
    unfolding list_all_iff by blast
  with resp
  have idx: "\<exists>resp. snd (searchLocations exServices 0 3 ?req) = Inr resp
          \<and> list_all (\<lambda>r. 4.5 \<le> rating r) (results resp)"
    by blast
  from f bf rs mem hits idx show ?thesis by blast
qed

text \<open>
  Against C6 as stated: with \<open>filters.rating = 0\<close> the rating is present, yet no range constraint is built, and
  the in-memory search returns a location whose stored rating is below 0.
\<close>

theorem rating_zero_counterexample:
  "f_rating exRating0 = Some 0
   \<and> buildFilter (Some exRating0) = []
   \<and> sp_filter (searchParams (exRequest \<lparr> req_filters := Some exRating0 \<rparr>) [1, 0, 0]) = None
   \<and> map rating (results (performInMemorySearch [exBeach, exMall, exStall] 0 3
         ''stall'' (Some exRating0))) = [- 1]"
  by (simp add: inMemory_eval exRating0_def buildFilter_def searchParams_def exRequest_def)

text \<open>
  C7. Failure atomicity. If the embedding call fails, \<open>searchLocations\<close> throws that error
  after this one call, without asking the index; if the index call fails, it throws that
  error. In both cases there is no response. A response exists only when both calls have
  succeeded, and then it holds the mapping of every hit of the index. The embedding service
  is called exactly once and the index at most once: nothing is retried.
\<close>

theorem search_failure_is_atomic:
  "(\<forall>e. generateEmbedding sv (req_query req) = Inl e \<longrightarrow>
       searchLocations sv st en req = ([EmbeddingCall (req_query req)], Inl e))
   \<and> (\<forall>emb e. generateEmbedding sv (req_query req) = Inr emb \<and>
          qdrantSearch sv (searchParams req emb) = Inl e \<longrightarrow>
       searchLocations sv st en req =
         ([EmbeddingCall (req_query req), IndexSearchCall (searchParams req emb)], Inl e))
   \<and> (\<forall>resp. snd (searchLocations sv st en req) = Inr resp \<longrightarrow>
         (\<exists>emb hits. generateEmbedding sv (req_query req) = Inr emb \<and>
            qdrantSearch sv (searchParams req emb) = Inr hits \<and>
            results resp = map (mapHit (arith sv) req) hits \<and> total resp = length hits))
   \<and> length (filter is_embedding_call (fst (searchLocations sv st en req))) = 1
   \<and> length (filter is_index_call (fst (searchLocations sv st en req))) \<le> 1"
proof (intro conjI allI impI)
  fix e assume "generateEmbedding sv (req_query req) = Inl e"
  then show "searchLocations sv st en req = ([EmbeddingCall (req_query req)], Inl e)"
    by (rule searchLocations_embedding_fails)
next
  fix emb e
  assume "generateEmbedding sv (req_query req) = Inr emb \<and>
          qdrantSearch sv (searchParams req emb) = Inl e"
  then show "searchLocations sv st en req =
         ([EmbeddingCall (req_query req), IndexSearchCall (searchParams req emb)], Inl e)"
    by (simp add: searchLocations_index_fails)
next
  fix resp assume "snd (searchLocations sv st en req) = Inr resp"
  then show "\<exists>emb hits. generateEmbedding sv (req_query req) = Inr emb \<and>
            qdrantSearch sv (searchParams req emb) = Inr hits \<and>
            results resp = map (mapHit (arith sv) req) hits \<and> total resp = length hits"
    by (rule searchLocations_Inr)
next
  show "length (filter is_embedding_call (fst (searchLocations sv st en req))) = 1"
    using searchLocations_calls [of sv st en req] by auto
  show "length (filter is_index_call (fst (searchLocations sv st en req))) \<le> 1"
    using searchLocations_calls [of sv st en req] by auto
qed

theorem search_failure_is_atomic_witness:
  "generateEmbedding exEmbeddingDown (req_query exRequest)
     = Inl (Error ''Failed to generate embedding'')
   \<and> searchLocations exEmbeddingDown 0 3 exRequest
     = ([EmbeddingCall ''beach''], Inl (Error ''Failed to generate embedding''))
   \<and> generateEmbedding exIndexDown (req_query exRequest) = Inr [1, 0, 0]
   \<and> qdrantSearch exIndexDown (searchParams exRequest [1, 0, 0])
     = Inl (Error ''index unavailable'')
   \<and> searchLocations exIndexDown 0 3 exRequest
     = ([EmbeddingCall ''beach'', IndexSearchCall (searchParams exRequest [1, 0, 0])],
        Inl (Error ''index unavailable''))"
proof -
  have e1: "generateEmbedding exEmbeddingDown (req_query exRequest)
     = Inl (Error ''Failed to generate embedding'')"
    by (simp add: exEmbeddingDown_def)
  note A = search_failure_is_atomic [of exEmbeddingDown exRequest 0 3,
    THEN conjunct1, rule_format]
  from A [OF e1] have r1: "searchLocations exEmbeddingDown 0 3 exRequest
     = ([EmbeddingCall ''beach''], Inl (Error ''Failed to generate embedding''))"
    by (simp add: exRequest_def)
  have e2: "generateEmbedding exIndexDown (req_query exRequest) = Inr [1, 0, 0]"
    by (simp add: exIndexDown_def)
  have s2: "qdrantSearch exIndexDown (searchParams exRequest [1, 0, 0])
     = Inl (Error ''index unavailable'')"
    by (simp add: exIndexDown_def)
  note B = search_failure_is_atomic [of exIndexDown exRequest 0 3,
    THEN conjunct2, THEN conjunct1, rule_format]
  from B [OF conjI [OF e2 s2]] have r2: "searchLocations exIndexDown 0 3 exRequest
     = ([EmbeddingCall ''beach'', IndexSearchCall (searchParams exRequest [1, 0, 0])],
        Inl (Error ''index unavailable''))"
    by (simp add: exRequest_def)
  from e1 r1 e2 s2 r2 show ?thesis by blast
qed




text \<open>
  C9. The in-memory search at the queries \<open>zzz  qqq\<close> (two adjacent spaces) and \<open> zzz\<close>
  (a leading space): \<open>split(' ')\<close> gives an empty piece, the empty string occurs in every
  text, and so Dubai Mall is returned, with scores 1/3 and 1/2, although neither zzz nor qqq
  occurs in its text.
\<close>

theorem empty_query_piece_matches_every_location:
  "queryWords ''zzz  qqq'' = [''zzz'', [], ''qqq'']
   \<and> queryWords '' zzz'' = [ [], ''zzz'']
   \<and> \<not> str_includes (searchText exMall) ''zzz''
   \<and> \<not> str_includes (searchText exMall) ''qqq''
   \<and> str_includes (searchText exMall) []
   \<and> map result_id (results (performInMemorySearch [exMall] 0 3 ''zzz  qqq'' None)) = [''2'']
   \<and> map similarityScore (results (performInMemorySearch [exMall] 0 3 ''zzz  qqq'' None))
       = [1 / 3]
   \<and> map result_id (results (performInMemorySearch [exMall] 0 3 '' zzz'' None)) = [''2'']
   \<and> map similarityScore (results (performInMemorySearch [exMall] 0 3 '' zzz'' None))
       = [1 / 2]"
  by (simp add: inMemory_eval)

end
